theory Spec2Isabelle
  imports Complex_Main
begin

section \<open>Data model of \<open>backend/server.py\<close>\<close>

text \<open>
  The pydantic models become records. A Python \<open>str\<close> is a \<open>string\<close>, an \<open>int\<close> is
  an \<open>int\<close>, \<open>Optional[str]\<close> is a \<open>string option\<close>. The \<open>float\<close> field
  \<open>percentage\<close> is a \<open>rat\<close>: the model only stores and copies it, and the literals of
  the fallback template (15.0, 20.0, 30.0, 25.0, 10.0) are small integers, which
  binary floating point represents and adds exactly.
\<close>

record TokenomicsRequest =
  project_type :: string
  target_audience :: string
  funding_goals :: string
  planned_raise_size :: "string option"
  desired_utility :: "string list"
  project_name_opt :: "string option"
  additional_info :: "string option"
  initial_supply :: "string option"
  distribution_focus :: "string option"
  launch_strategy :: "string option"
  economic_model :: "string option"

record TokenAllocation =
  category :: string
  percentage :: rat
  tokens :: int
  description :: string
  vesting_schedule :: string
  cliff_months :: int
  linear_unlock_months :: int

record TokenomicsProject =
  id :: string
  project_name :: string
  request_data :: TokenomicsRequest
  allocations :: "TokenAllocation list"
  total_supply :: int
  narrative :: string
  risks :: "string list"
  comparable_projects :: "string list"
  created_at :: int
  pdf_generated :: bool
  payment_status :: string

subsection \<open>The sources of identities and timestamps\<close>

text \<open>
  \<open>uuid.uuid4()\<close> and \<open>datetime.now(timezone.utc)\<close> read the outside world. The
  world is passed explicitly: \<open>uuid_source\<close> is the sequence of identities the
  generator hands out and \<open>uuid_drawn\<close> counts the draws so far; \<open>clock\<close> is the
  sequence of readings of the clock and \<open>clock_reads\<close> counts the readings.
\<close>

record world =
  uuid_source :: "nat \<Rightarrow> string"
  uuid_drawn :: nat
  clock :: "nat \<Rightarrow> int"
  clock_reads :: nat

definition uuid4 :: "world \<Rightarrow> string \<times> world" where
  "uuid4 w = (uuid_source w (uuid_drawn w), w\<lparr>uuid_drawn := Suc (uuid_drawn w)\<rparr>)"

definition datetime_now :: "world \<Rightarrow> int \<times> world" where
  "datetime_now w = (clock w (clock_reads w), w\<lparr>clock_reads := Suc (clock_reads w)\<rparr>)"

text \<open>
  The field defaults of \<open>TokenomicsProject\<close> (lines 75 to 86): \<open>id\<close> and
  \<open>created_at\<close> come from their default factories, in field order, and
  \<open>pdf_generated\<close> and \<open>payment_status\<close> are the constants \<open>False\<close> and
  \<open>"pending"\<close>. \<open>new_TokenomicsProject\<close> is the constructor called with the seven
  keyword arguments both generation paths pass, all of them already of their field's type.
\<close>

definition new_TokenomicsProject ::
  "world \<Rightarrow> string \<Rightarrow> TokenomicsRequest \<Rightarrow> TokenAllocation list \<Rightarrow> int \<Rightarrow> string \<Rightarrow>
     string list \<Rightarrow> string list \<Rightarrow> TokenomicsProject \<times> world" where
  "new_TokenomicsProject w name req allocs supply narr rs cps =
     (let (i, w1) = uuid4 w;
          (t, w2) = datetime_now w1
      in (\<lparr>id = i, project_name = name, request_data = req, allocations = allocs,
            total_supply = supply, narrative = narr, risks = rs, comparable_projects = cps,
            created_at = t, pdf_generated = False, payment_status = ''pending''\<rparr>, w2))"

text \<open>
  \<open>request.project_name or f"{request.project_type} Project"\<close>: the default is taken
  when the name is \<open>None\<close> or the empty string.
\<close>

definition default_project_name :: "TokenomicsRequest \<Rightarrow> string" where
  "default_project_name request =
     (case project_name_opt request of
        None \<Rightarrow> project_type request @ '' Project''
      | Some n \<Rightarrow> if n = [] then project_type request @ '' Project'' else n)"

section \<open>The fallback generator\<close>

definition fallback_allocations :: "TokenAllocation list" where
  "fallback_allocations =
     [\<lparr>category = ''Team'', percentage = 15, tokens = 15000000,
        description = ''Core team allocation with long vesting'',
        vesting_schedule = ''4-year linear vesting with 12-month cliff'',
        cliff_months = 12, linear_unlock_months = 36\<rparr>,
      \<lparr>category = ''Investors'', percentage = 20, tokens = 20000000,
        description = ''Private and seed investor allocation'',
        vesting_schedule = ''2-year linear vesting with 6-month cliff'',
        cliff_months = 6, linear_unlock_months = 18\<rparr>,
      \<lparr>category = ''Community'', percentage = 30, tokens = 30000000,
        description = ''Community rewards and ecosystem growth'',
        vesting_schedule = ''5-year emission schedule'',
        cliff_months = 0, linear_unlock_months = 60\<rparr>,
      \<lparr>category = ''Treasury'', percentage = 25, tokens = 25000000,
        description = ''Treasury for development and partnerships'',
        vesting_schedule = ''On-demand unlocking via governance'',
        cliff_months = 0, linear_unlock_months = 0\<rparr>,
      \<lparr>category = ''Liquidity'', percentage = 10, tokens = 10000000,
        description = ''DEX liquidity and market making'',
        vesting_schedule = ''Immediate unlock for liquidity provision'',
        cliff_months = 0, linear_unlock_months = 0\<rparr>]"

definition fallback_narrative :: "TokenomicsRequest \<Rightarrow> string" where
  "fallback_narrative request =
     ''This '' @ project_type request
       @ '' project features a balanced tokenomics model designed for ''
       @ target_audience request
       @ '' audience. The distribution ensures proper incentive alignment between stakeholders while maintaining healthy token circulation.''"

definition create_fallback_tokenomics ::
  "world \<Rightarrow> TokenomicsRequest \<Rightarrow> TokenomicsProject \<times> world" where
  "create_fallback_tokenomics w request =
     new_TokenomicsProject w (default_project_name request) request fallback_allocations
       100000000 (fallback_narrative request)
       [''Market volatility'', ''Regulatory uncertainty'', ''Adoption challenges'']
       [''Uniswap'', ''AAVE'', ''Compound'']"

section \<open>Reading the model's response\<close>

subsection \<open>Python string operations\<close>

text \<open>
  A \<open>str\<close> is modelled as a list of code points below 256. \<open>isspace\<close> is the
  whitespace test that \<open>str.strip()\<close> and \<open>str.split()\<close> apply; below 256 it holds
  of the code points 9 to 13, 28 to 32, 133 and 160.
\<close>

definition isspace :: "char \<Rightarrow> bool" where
  "isspace c = (c \<in> set [CHR 0x09, CHR 0x0A, CHR 0x0B, CHR 0x0C, CHR 0x0D, CHR 0x1C,
                          CHR 0x1D, CHR 0x1E, CHR 0x1F, CHR 0x20, CHR 0x85, CHR 0xA0])"

definition trim :: "(char \<Rightarrow> bool) \<Rightarrow> string \<Rightarrow> string" where
  "trim P s = rev (dropWhile P (rev (dropWhile P s)))"

definition strip :: "string \<Rightarrow> string" where
  "strip s = trim isspace s"

definition startswith :: "string \<Rightarrow> string \<Rightarrow> bool" where
  "startswith s p = (take (length p) s = p)"

text \<open>
  The slice \<open>s[a:-b]\<close> for \<open>b > 0\<close>: it starts at index \<open>a\<close> and stops at index
  \<open>len(s) - b\<close>, clipped at 0, and is empty when the start is not before the stop.
\<close>

definition slice_neg :: "nat \<Rightarrow> nat \<Rightarrow> string \<Rightarrow> string" where
  "slice_neg a b s = drop a (take (length s - b) s)"

text \<open>Lines 180 to 184: the text handed to \<open>json.loads\<close>.\<close>

definition response_text :: "string \<Rightarrow> string" where
  "response_text response =
     (let t = strip response in
      if startswith t ''```json'' then slice_neg 7 3 t
      else if startswith t ''```'' then slice_neg 3 3 t
      else t)"

subsection \<open>Decoded JSON and the two libraries\<close>

text \<open>
  What \<open>json.loads\<close> returns: \<open>None\<close>, a \<open>bool\<close>, an \<open>int\<close>, a
  \<open>float\<close>, a \<open>str\<close>, a \<open>list\<close> or a \<open>dict\<close> with string keys. A \<open>dict\<close> is
  an association list that is read with \<open>map_of\<close>. A \<open>float\<close> is the rational
  number it stands for; the three floats that are no numbers (the decoder builds them
  from \<open>NaN\<close> and \<open>Infinity\<close>) are left out.
\<close>

datatype json =
    JNull
  | JBool bool
  | JInt int
  | JFloat rat
  | JString string
  | JArray "json list"
  | JObject "(string \<times> json) list"

datatype exn =
    KeyError string
  | TypeError
  | JSONDecodeError
  | ValidationError
  | ModelUnavailable
  | ModelTimeout

text \<open>
  The JSON decoder and the field validators of pydantic are libraries, not code of the
  repository; the model takes them as parameters.
  \<^item> \<open>raw_decode\<close> scans one JSON value that must span the whole text it is given;
  \<^item> \<open>as_str\<close>, \<open>as_int\<close> and \<open>as_float\<close> are the validators of fields declared
    \<open>str\<close>, \<open>int\<close> and \<open>float\<close>: the validated value, or \<open>None\<close> when the
    validator rejects the input.
\<close>

record env =
  raw_decode :: "string \<Rightarrow> json option"
  as_str :: "json \<Rightarrow> string option"
  as_int :: "json \<Rightarrow> int option"
  as_float :: "json \<Rightarrow> rat option"

text \<open>
  \<open>json.loads\<close> skips the JSON whitespace (space, tab, line feed, carriage return)
  before and after the value and fails when anything else is left over.
\<close>

definition json_ws :: "char \<Rightarrow> bool" where
  "json_ws c = (c \<in> set [CHR 0x20, CHR 0x09, CHR 0x0A, CHR 0x0D])"

definition json_loads :: "env \<Rightarrow> string \<Rightarrow> exn + json" where
  "json_loads E s =
     (case raw_decode E (trim json_ws s) of None \<Rightarrow> Inl JSONDecodeError | Some v \<Rightarrow> Inr v)"

text \<open>Sequencing of steps that may raise.\<close>

definition bind_exn :: "exn + 'a \<Rightarrow> ('a \<Rightarrow> exn + 'b) \<Rightarrow> exn + 'b" where
  "bind_exn m f = (case m of Inl e \<Rightarrow> Inl e | Inr x \<Rightarrow> f x)"

fun map_exn :: "('a \<Rightarrow> exn + 'b) \<Rightarrow> 'a list \<Rightarrow> exn + 'b list" where
  "map_exn f [] = Inr []"
| "map_exn f (x # xs) =
     bind_exn (f x) (\<lambda>y. bind_exn (map_exn f xs) (\<lambda>ys. Inr (y # ys)))"

text \<open>
  \<open>data[key]\<close> raises \<open>KeyError\<close> on a \<open>dict\<close> without the key and \<open>TypeError\<close>
  on every other decoded value (a list or a string wants an integer index, the rest
  cannot be subscripted).
\<close>

definition subscript :: "json \<Rightarrow> string \<Rightarrow> exn + json" where
  "subscript data key =
     (case data of
        JObject fs \<Rightarrow> (case map_of fs key of None \<Rightarrow> Inl (KeyError key) | Some v \<Rightarrow> Inr v)
      | _ \<Rightarrow> Inl TypeError)"

text \<open>
  \<open>for alloc in v\<close>: a list yields its elements, a string its characters, a
  \<open>dict\<close> its keys; the other values are not iterable.
\<close>

definition py_iter :: "json \<Rightarrow> exn + json list" where
  "py_iter v =
     (case v of
        JArray es \<Rightarrow> Inr es
      | JString s \<Rightarrow> Inr (map (\<lambda>c. JString [c]) s)
      | JObject fs \<Rightarrow> Inr (map JString (remdups (map fst fs)))
      | _ \<Rightarrow> Inl TypeError)"

text \<open>A required field of a pydantic model: absent, or rejected by its validator.\<close>

definition field :: "(json \<Rightarrow> 'a option) \<Rightarrow> (string \<times> json) list \<Rightarrow> string \<Rightarrow> 'a option" where
  "field validator fs key = (case map_of fs key of None \<Rightarrow> None | Some v \<Rightarrow> validator v)"

text \<open>
  \<open>TokenAllocation(**alloc)\<close> (lines 66 to 73 and 189): \<open>**\<close> wants a mapping; then
  each of the seven fields is required and validated by its declared type. Keys that
  name no field are ignored. There is no other check.
\<close>

definition validate_allocation :: "env \<Rightarrow> (string \<times> json) list \<Rightarrow> TokenAllocation option" where
  "validate_allocation E fs =
     Option.bind (field (as_str E) fs ''category'') (\<lambda>c.
     Option.bind (field (as_float E) fs ''percentage'') (\<lambda>p.
     Option.bind (field (as_int E) fs ''tokens'') (\<lambda>t.
     Option.bind (field (as_str E) fs ''description'') (\<lambda>d.
     Option.bind (field (as_str E) fs ''vesting_schedule'') (\<lambda>v.
     Option.bind (field (as_int E) fs ''cliff_months'') (\<lambda>cm.
     Option.bind (field (as_int E) fs ''linear_unlock_months'') (\<lambda>lm.
       Some \<lparr>category = c, percentage = p, tokens = t, description = d,
              vesting_schedule = v, cliff_months = cm, linear_unlock_months = lm\<rparr>)))))))"

definition TokenAllocation_init :: "env \<Rightarrow> json \<Rightarrow> exn + TokenAllocation" where
  "TokenAllocation_init E alloc =
     (case alloc of
        JObject fs \<Rightarrow>
          (case validate_allocation E fs of
             None \<Rightarrow> Inl ValidationError
           | Some a \<Rightarrow> Inr a)
      | _ \<Rightarrow> Inl TypeError)"

text \<open>The validator of a field declared \<open>List[str]\<close>: a list whose elements all validate.\<close>

definition as_str_list :: "env \<Rightarrow> json \<Rightarrow> string list option" where
  "as_str_list E v = (case v of JArray es \<Rightarrow> those (map (as_str E) es) | _ \<Rightarrow> None)"

text \<open>
  \<open>TokenomicsProject(...)\<close> at lines 191 to 199, where \<open>total_supply\<close>,
  \<open>narrative\<close>, \<open>risks\<close> and \<open>comparable_projects\<close> are decoded values. The default
  factories of \<open>id\<close> and \<open>created_at\<close> run whether or not the other fields
  validate.
\<close>

definition TokenomicsProject_init ::
  "env \<Rightarrow> world \<Rightarrow> string \<Rightarrow> TokenomicsRequest \<Rightarrow> TokenAllocation list \<Rightarrow> json \<Rightarrow> json \<Rightarrow>
     json \<Rightarrow> json \<Rightarrow> (exn + TokenomicsProject) \<times> world" where
  "TokenomicsProject_init E w name req allocs ts nv rv cv =
     (case (as_int E ts, as_str E nv, as_str_list E rv, as_str_list E cv) of
        (Some supply, Some narr, Some rs, Some cps) \<Rightarrow>
          (let (p, w') = new_TokenomicsProject w name req allocs supply narr rs cps
           in (Inr p, w'))
      | _ \<Rightarrow> (Inl ValidationError, snd (datetime_now (snd (uuid4 w)))))"

text \<open>
  The keys that the source reads from the decoded data (lines 189 and 195 to 198), in the
  order in which it reads them, and the fields of an allocation (lines 67 to 73).
\<close>

definition required_keys :: "string list" where
  "required_keys = [''allocations'', ''total_supply'', ''narrative'', ''risks'',
                    ''comparable_projects'']"

definition allocation_fields :: "string list" where
  "allocation_fields = [''category'', ''percentage'', ''tokens'', ''description'',
                        ''vesting_schedule'', ''cliff_months'', ''linear_unlock_months'']"

subsection \<open>The generation orchestrator\<close>

text \<open>
  Lines 179 to 198 up to the constructor call: the decoded data, the allocations built
  from it and the four values looked up for the constructor, in the order in which the
  source evaluates them. The first step that raises ends the sequence.
\<close>

definition parse_response ::
  "env \<Rightarrow> string \<Rightarrow> exn + (TokenAllocation list \<times> json \<times> json \<times> json \<times> json)" where
  "parse_response E response =
     bind_exn (json_loads E (response_text response)) (\<lambda>tokenomics_data.
     bind_exn (subscript tokenomics_data ''allocations'') (\<lambda>av.
     bind_exn (py_iter av) (\<lambda>entries.
     bind_exn (map_exn (TokenAllocation_init E) entries) (\<lambda>allocs.
     bind_exn (subscript tokenomics_data ''total_supply'') (\<lambda>ts.
     bind_exn (subscript tokenomics_data ''narrative'') (\<lambda>nv.
     bind_exn (subscript tokenomics_data ''risks'') (\<lambda>rv.
     bind_exn (subscript tokenomics_data ''comparable_projects'') (\<lambda>cv.
       Inr (allocs, ts, nv, rv, cv)))))))))"

text \<open>
  The body of the \<open>try\<close> block (lines 114 to 201). Two things reach it from
  outside: \<open>api_key\<close>, the environment variable \<open>EMERGENT_LLM_KEY\<close> when it is
  set, and \<open>reply\<close>, the outcome of \<open>chat.send_message\<close> (the response text, or the
  exception it raised). \<open>os.environ[...]\<close> raises \<open>KeyError\<close> when the key is not
  set; the session identifier draws one identity. The prompt is a string built from the
  request without a step that can raise; it reaches the model only.
\<close>

definition try_generate ::
  "env \<Rightarrow> string option \<Rightarrow> exn + string \<Rightarrow> world \<Rightarrow> TokenomicsRequest \<Rightarrow>
     (exn + TokenomicsProject) \<times> world" where
  "try_generate E api_key reply w request =
     (case api_key of
        None \<Rightarrow> (Inl (KeyError ''EMERGENT_LLM_KEY''), w)
      | Some k \<Rightarrow>
          (let (session_id, w1) = uuid4 w in
           case reply of
             Inl e \<Rightarrow> (Inl e, w1)
           | Inr response \<Rightarrow>
               (case parse_response E response of
                  Inl e \<Rightarrow> (Inl e, w1)
                | Inr (allocs, ts, nv, rv, cv) \<Rightarrow>
                    TokenomicsProject_init E w1 (default_project_name request) request
                      allocs ts nv rv cv)))"

text \<open>
  \<open>generate_tokenomics_with_claude\<close> (lines 111 to 206): \<open>except Exception\<close> logs the
  error and returns the fallback design. Log lines are not part of the model.
\<close>

definition generate_tokenomics_with_claude ::
  "env \<Rightarrow> string option \<Rightarrow> exn + string \<Rightarrow> world \<Rightarrow> TokenomicsRequest \<Rightarrow>
     TokenomicsProject \<times> world" where
  "generate_tokenomics_with_claude E api_key reply w request =
     (case try_generate E api_key reply w request of
        (Inr project, w') \<Rightarrow> (project, w')
      | (Inl e, w') \<Rightarrow> create_fallback_tokenomics w' request)"

section \<open>The generation endpoint, the chart data and retrieval\<close>

text \<open>
  The chart data of lines 393 to 401: one dictionary with the keys \<open>name\<close>,
  \<open>value\<close>, \<open>tokens\<close> and \<open>color\<close> for each allocation, in the order of
  \<open>enumerate\<close>.
\<close>

record chart_entry =
  chart_name :: string
  chart_value :: rat
  chart_tokens :: int
  chart_color :: string

definition palette :: "string list" where
  "palette = [''#DC1FFF'', ''#00FFA3'', ''#FF6B35'', ''#4ECDC4'', ''#45B7D1'', ''#96CEB4'',
              ''#FFEAA7'']"

definition chart_data :: "TokenomicsProject \<Rightarrow> chart_entry list" where
  "chart_data project =
     map (\<lambda>(i, alloc). \<lparr>chart_name = category alloc, chart_value = percentage alloc,
                          chart_tokens = tokens alloc, chart_color = palette ! (i mod 7)\<rparr>)
       (enumerate 0 (allocations project))"

text \<open>
  The collection \<open>db.tokenomics_projects\<close> is the list of its documents in insertion
  order. A document is the dictionary of a design, with the timestamp as its ISO text
  (the same reading in the model); the key the database adds to it is left out.
  \<open>insert_one\<close> appends and \<open>find_one({"id": project_id})\<close> returns the first
  document with that \<open>id\<close>, or \<open>None\<close>. When the database cannot be reached the
  driver raises; \<open>outage\<close> is then the message of its exception.
\<close>

record database =
  tokenomics_projects :: "TokenomicsProject list"
  outage :: "string option"

definition insert_one :: "database \<Rightarrow> TokenomicsProject \<Rightarrow> string + database" where
  "insert_one db doc =
     (case outage db of
        Some msg \<Rightarrow> Inl msg
      | None \<Rightarrow> Inr (db\<lparr>tokenomics_projects := tokenomics_projects db @ [doc]\<rparr>))"


text \<open>
  What a route hands to the framework instead of a result: the \<open>HTTPException\<close> it
  raised, with status code and detail, or an exception it did not catch.
\<close>

datatype http_error = HTTPException nat string | Unhandled string

record TokenomicsResponse =
  project :: TokenomicsProject
  chart :: "chart_entry list"

text \<open>\<open>generate_tokenomics\<close> (lines 381 to 407).\<close>

definition generate_tokenomics ::
  "env \<Rightarrow> string option \<Rightarrow> exn + string \<Rightarrow> world \<times> database \<Rightarrow> TokenomicsRequest \<Rightarrow>
     (http_error + TokenomicsResponse) \<times> world \<times> database" where
  "generate_tokenomics E api_key reply state request =
     (let (w, db) = state;
          (p, w') = generate_tokenomics_with_claude E api_key reply w request
      in case insert_one db p of
           Inl msg \<Rightarrow>
             (Inl (HTTPException 500 (''Error generating tokenomics: '' @ msg)), w', db)
         | Inr db' \<Rightarrow> (Inr \<lparr>project = p, chart = chart_data p\<rparr>, w', db'))"


section \<open>The narrative pages of the report\<close>

text \<open>
  \<open>str.split()\<close> without arguments: the maximal runs of characters that are not
  whitespace, in order. \<open>cur\<close> is the run being read.
\<close>

fun split_loop :: "string \<Rightarrow> string \<Rightarrow> string list" where
  "split_loop [] cur = (if cur = [] then [] else [cur])"
| "split_loop (c # cs) cur =
     (if isspace c then (if cur = [] then split_loop cs [] else cur # split_loop cs [])
      else split_loop cs (cur @ [c]))"

definition split :: "string \<Rightarrow> string list" where
  "split s = split_loop s []"










section \<open>Concrete parameters for examples\<close>

text \<open>
  Every version of pydantic accepts a JSON string for a field declared \<open>str\<close>, a JSON
  integer for a field declared \<open>int\<close> and a JSON number for a field declared
  \<open>float\<close>, and stores it unchanged (an integer converted, for \<open>float\<close>). The
  validators below accept exactly these values. They stand for the parameters in the
  examples, which use such values only.
\<close>

definition native_str :: "json \<Rightarrow> string option" where
  "native_str v = (case v of JString s \<Rightarrow> Some s | _ \<Rightarrow> None)"

definition native_int :: "json \<Rightarrow> int option" where
  "native_int v = (case v of JInt n \<Rightarrow> Some n | _ \<Rightarrow> None)"

definition native_float :: "json \<Rightarrow> rat option" where
  "native_float v = (case v of JFloat r \<Rightarrow> Some r | JInt n \<Rightarrow> Some (of_int n) | _ \<Rightarrow> None)"

text \<open>
  Decoded data of a complete design with one allocation; data whose only allocation lacks
  six of its fields; an allocation entry with values of the right types and out of range;
  and a decoder that knows three texts: \<open>{}\<close> (the empty object), \<open>{D}\<close> and
  \<open>{M}\<close> (standing for the texts of the complete and of the incomplete data).
\<close>

definition example_allocation :: json where
  "example_allocation =
     JObject [(''category'', JString ''Team''), (''percentage'', JFloat 100),
              (''tokens'', JInt 1000), (''description'', JString ''all''),
              (''vesting_schedule'', JString ''none''), (''cliff_months'', JInt 0),
              (''linear_unlock_months'', JInt 0)]"

definition example_data :: json where
  "example_data =
     JObject [(''total_supply'', JInt 1000), (''allocations'', JArray [example_allocation]),
              (''narrative'', JString ''one holder''), (''risks'', JArray [JString ''r'']),
              (''comparable_projects'', JArray [JString ''c''])]"

definition example_missing :: json where
  "example_missing =
     JObject [(''total_supply'', JInt 1000),
              (''allocations'', JArray [JObject [(''category'', JString ''Team'')]]),
              (''narrative'', JString ''one holder''), (''risks'', JArray [JString ''r'']),
              (''comparable_projects'', JArray [JString ''c''])]"


definition example_env :: env where
  "example_env =
     \<lparr>raw_decode = map_of [(''{}'', JObject []), (''{D}'', example_data),
                            (''{M}'', example_missing)],
      as_str = native_str, as_int = native_int, as_float = native_float\<rparr>"

definition example_world :: world where
  "example_world =
     \<lparr>uuid_source = (\<lambda>n. replicate (Suc n) (CHR ''u'')), uuid_drawn = 0,
      clock = (\<lambda>n. int n), clock_reads = 0\<rparr>"

definition example_request :: TokenomicsRequest where
  "example_request =
     \<lparr>project_type = ''DeFi'', target_audience = ''retail'', funding_goals = ''seed round'',
      planned_raise_size = None, desired_utility = [''staking'', ''governance''],
      project_name_opt = None, additional_info = None, initial_supply = Some ''100M'',
      distribution_focus = Some ''balanced'', launch_strategy = Some ''gradual'',
      economic_model = Some ''standard''\<rparr>"

text \<open>
  An empty database that can be reached; the fallback design of the example request; and
  a narrative of 42 words of 45 letters, none of which fits on a line with another.
\<close>

definition example_db :: database where
  "example_db = \<lparr>tokenomics_projects = [], outage = None\<rparr>"



section \<open>Properties\<close>

subsection \<open>The fallback template\<close>

lemma allocations_fallback:
  "allocations (fst (create_fallback_tokenomics w request)) = fallback_allocations"
  by (simp add: create_fallback_tokenomics_def new_TokenomicsProject_def uuid4_def
      datetime_now_def)

lemma total_supply_fallback:
  "total_supply (fst (create_fallback_tokenomics w request)) = 100000000"
  by (simp add: create_fallback_tokenomics_def new_TokenomicsProject_def uuid4_def
      datetime_now_def)

text \<open>
  Claim C1. For every request (and every state of the world) the fallback generator
  returns a design with exactly the five allocations Team 15, Investors 20, Community 30,
  Treasury 25, Liquidity 10, in this order; the percentages add up to 100, the token
  counts add up to the design's total supply, which is 100,000,000, and each token count
  is its percentage of that supply.
\<close>

theorem fallback_template_exact:
  fixes w :: world and request :: TokenomicsRequest
  defines "p \<equiv> fst (create_fallback_tokenomics w request)"
  shows "map (\<lambda>a. (category a, percentage a)) (allocations p)
           = [(''Team'', 15), (''Investors'', 20), (''Community'', 30), (''Treasury'', 25),
              (''Liquidity'', 10)]
       \<and> sum_list (map percentage (allocations p)) = 100
       \<and> total_supply p = 100000000
       \<and> sum_list (map tokens (allocations p)) = total_supply p
       \<and> map (\<lambda>a. of_int (tokens a)) (allocations p)
           = map (\<lambda>a. percentage a * of_int (total_supply p) / 100) (allocations p)"
  unfolding p_def allocations_fallback total_supply_fallback
  by (simp add: fallback_allocations_def)

subsection \<open>Removing the code fence\<close>

lemma trim_padded:
  assumes "list_all P a" "list_all P b" "p \<noteq> []" "\<not> P (hd p)" "\<not> P (last p)"
  shows "trim P (a @ p @ b) = p"
proof -
  have 1: "dropWhile P (a @ p @ b) = p @ b"
    using assms by (cases p) (simp_all add: dropWhile_append3 list_all_iff dropWhile_append)
  have 2: "dropWhile P (rev b @ rev p) = rev p"
    using assms by (cases "rev p") (auto simp add: dropWhile_append list_all_iff last_rev hd_rev)
  show ?thesis by (simp add: trim_def 1 2)
qed

lemma trim_fixed: "p \<noteq> [] \<Longrightarrow> \<not> P (hd p) \<Longrightarrow> \<not> P (last p) \<Longrightarrow> trim P p = p"
  using trim_padded [of P "[]" "[]" p] by simp

lemma slice_neg_append: "length a = n \<Longrightarrow> length b = m \<Longrightarrow> slice_neg n m (a @ x @ b) = x"
  by (simp add: slice_neg_def)

lemma startswith_append: "startswith (p @ s) p"
  by (simp add: startswith_def)

lemma slice_neg_split:
  assumes "a + b \<le> length t"
  shows "t = take a t @ slice_neg a b t @ drop (length t - b) t"
proof -
  have "take a t = take a (take (length t - b) t)"
    using assms by (simp add: min_absorb1)
  then have "take a t @ slice_neg a b t = take (length t - b) t"
    unfolding slice_neg_def by (metis append_take_drop_id)
  then show ?thesis
    by (metis append.assoc append_take_drop_id)
qed

lemma slice_neg_open:
  "length f = a \<Longrightarrow> slice_neg a b (f @ payload) = take (length payload - b) payload"
  by (cases "b \<le> length payload") (simp_all add: slice_neg_def)

lemma strip_open_fence:
  assumes "payload \<noteq> []" "\<not> isspace (last payload)" "f \<noteq> []" "\<not> isspace (hd f)"
  shows "strip (f @ payload) = f @ payload"
  unfolding strip_def using assms by (intro trim_fixed) simp_all

lemma startswith_longer:
  "startswith (''```'' @ payload) ''```json'' = startswith payload ''json''"
  by (simp add: startswith_def)

lemma response_text_typed:
  assumes "strip r = ''```json'' @ x"
  shows "response_text r = take (length x - 3) x"
proof -
  have "startswith (''```json'' @ x) ''```json''"
    by (rule startswith_append)
  moreover have "slice_neg 7 3 (''```json'' @ x) = take (length x - 3) x"
    by (rule slice_neg_open) simp
  ultimately show ?thesis
    unfolding response_text_def Let_def assms by (simp only: if_True)
qed

lemma response_text_untyped:
  assumes "strip r = ''```'' @ x" "\<not> startswith x ''json''"
  shows "response_text r = take (length x - 3) x"
proof -
  have "startswith (''```'' @ x) ''```''"
    by (rule startswith_append)
  moreover have "\<not> startswith (''```'' @ x) ''```json''"
    using assms(2) by (simp only: startswith_longer not_False_eq_True)
  moreover have "slice_neg 3 3 (''```'' @ x) = take (length x - 3) x"
    by (rule slice_neg_open) simp
  ultimately show ?thesis
    unfolding response_text_def Let_def assms(1) by (simp only: if_True if_False)
qed


text \<open>
  Claim C10. Let \<open>t\<close> be the response with surrounding whitespace stripped. When
  \<open>t\<close> starts with the typed fence, the text handed to the decoder is \<open>t\<close> without
  its first 7 and its last 3 characters (and empty when \<open>t\<close> has fewer than 10); when
  \<open>t\<close> starts with a fence that is not the typed one, it is \<open>t\<close> without its first 3
  and its last 3 characters (and empty when \<open>t\<close> has fewer than 6). Nothing checks that
  the last 3 characters are a fence: a payload that follows an opening fence and is not
  closed loses its own last 3 characters.
\<close>

theorem fence_slices_unconditional:
  fixes response payload :: string
  defines "t \<equiv> strip response"
  shows "(startswith t ''```json'' \<longrightarrow>
            response_text response = drop 7 (take (length t - 3) t)
          \<and> (10 \<le> length t \<longrightarrow> t = take 7 t @ response_text response @ drop (length t - 3) t)
          \<and> (length t < 10 \<longrightarrow> response_text response = []))
       \<and> (startswith t ''```'' \<and> \<not> startswith t ''```json'' \<longrightarrow>
            response_text response = drop 3 (take (length t - 3) t)
          \<and> (6 \<le> length t \<longrightarrow> t = take 3 t @ response_text response @ drop (length t - 3) t)
          \<and> (length t < 6 \<longrightarrow> response_text response = []))
       \<and> (payload \<noteq> [] \<and> \<not> isspace (last payload) \<longrightarrow>
            response_text (''```json'' @ payload) = take (length payload - 3) payload)
       \<and> (payload \<noteq> [] \<and> \<not> isspace (last payload) \<and> \<not> startswith payload ''json'' \<longrightarrow>
            response_text (''```'' @ payload) = take (length payload - 3) payload)"
proof (intro conjI impI)
  assume "startswith t ''```json''"
  then show typed: "response_text response = drop 7 (take (length t - 3) t)"
    by (simp add: response_text_def t_def slice_neg_def Let_def)
  show "t = take 7 t @ response_text response @ drop (length t - 3) t" if "10 \<le> length t"
    using slice_neg_split [of 7 3 t] that typed by (simp add: slice_neg_def)
  show "response_text response = []" if "length t < 10"
    using that typed by simp
next
  assume "startswith t ''```'' \<and> \<not> startswith t ''```json''"
  then show untyped: "response_text response = drop 3 (take (length t - 3) t)"
    by (simp add: response_text_def t_def slice_neg_def Let_def)
  show "t = take 3 t @ response_text response @ drop (length t - 3) t" if "6 \<le> length t"
    using slice_neg_split [of 3 3 t] that untyped by (simp add: slice_neg_def)
  show "response_text response = []" if "length t < 6"
    using that untyped by simp
next
  assume "payload \<noteq> [] \<and> \<not> isspace (last payload)"
  then have "strip (''```json'' @ payload) = ''```json'' @ payload"
    by (intro strip_open_fence) (simp_all add: isspace_def)
  then show "response_text (''```json'' @ payload) = take (length payload - 3) payload"
    by (rule response_text_typed)
next
  assume a: "payload \<noteq> [] \<and> \<not> isspace (last payload) \<and> \<not> startswith payload ''json''"
  then have "strip (''```'' @ payload) = ''```'' @ payload"
    by (intro strip_open_fence) (simp_all add: isspace_def)
  then show "response_text (''```'' @ payload) = take (length payload - 3) payload"
    using a by (intro response_text_untyped) simp_all
qed

theorem fence_slices_unconditional_witness:
  "startswith (strip ''```json[1, 22]'') ''```json''
   \<and> response_text ''```json[1, 22]'' = ''[1, ''
   \<and> startswith (strip ''```[1, 22]'') ''```'' \<and> \<not> startswith (strip ''```[1, 22]'') ''```json''
   \<and> response_text ''```[1, 22]'' = ''[1, ''
   \<and> startswith (strip ''```json'') ''```json'' \<and> response_text ''```json'' = []
   \<and> startswith (strip ''````'') ''```'' \<and> \<not> startswith (strip ''````'') ''```json'' 
   \<and> response_text ''````'' = []
   \<and> response_text (''```json'' @ ''[1, 22]'') = take (length ''[1, 22]'' - 3) ''[1, 22]''
   \<and> response_text (''```'' @ ''[1, 22]'') = take (length ''[1, 22]'' - 3) ''[1, 22]''"
proof -
  have s1: "strip ''```json[1, 22]'' = ''```json[1, 22]''"
    and s2: "strip ''```[1, 22]'' = ''```[1, 22]''"
    and s3: "strip ''```json'' = ''```json''"
    and s4: "strip ''````'' = ''````''"
    by (simp_all add: strip_def trim_def isspace_def)
  have h1: "startswith (strip ''```json[1, 22]'') ''```json''"
    and h2: "startswith (strip ''```[1, 22]'') ''```'' \<and> \<not> startswith (strip ''```[1, 22]'') ''```json''"
    and h3: "startswith (strip ''```json'') ''```json''"
    and h4: "startswith (strip ''````'') ''```'' \<and> \<not> startswith (strip ''````'') ''```json''"
    unfolding s1 s2 s3 s4 by (simp_all add: startswith_def)
  note t = fence_slices_unconditional
  have c1: "response_text ''```json[1, 22]'' = ''[1, ''"
    using t [of "''```json[1, 22]''", THEN conjunct1, THEN mp, OF h1, THEN conjunct1]
    unfolding s1 by simp
  have c2: "response_text ''```[1, 22]'' = ''[1, ''"
    using t [of "''```[1, 22]''", THEN conjunct2, THEN conjunct1, THEN mp, OF h2, THEN conjunct1]
    unfolding s2 by simp
  have c3: "response_text ''```json'' = []"
    using t [of "''```json''", THEN conjunct1, THEN mp, OF h3, THEN conjunct1]
    unfolding s3 by simp
  have c4: "response_text ''````'' = []"
    using t [of "''````''", THEN conjunct2, THEN conjunct1, THEN mp, OF h4, THEN conjunct1]
    unfolding s4 by simp
  have h5: "''[1, 22]'' \<noteq> [] \<and> \<not> isspace (last ''[1, 22]'')"
    and h6: "''[1, 22]'' \<noteq> [] \<and> \<not> isspace (last ''[1, 22]'') \<and> \<not> startswith ''[1, 22]'' ''json''"
    by (simp_all add: isspace_def startswith_def)
  have c5: "response_text (''```json'' @ ''[1, 22]'') = take (length ''[1, 22]'' - 3) ''[1, 22]''"
    using t [of _ "''[1, 22]''", THEN conjunct2, THEN conjunct2, THEN conjunct1, THEN mp, OF h5] .
  have c6: "response_text (''```'' @ ''[1, 22]'') = take (length ''[1, 22]'' - 3) ''[1, 22]''"
    using t [of _ "''[1, 22]''", THEN conjunct2, THEN conjunct2, THEN conjunct2, THEN mp, OF h6] .
  from h1 h2 h3 h4 c1 c2 c3 c4 c5 c6 show ?thesis by blast
qed


subsection \<open>Fenced and plain responses\<close>

















subsection \<open>The examples, evaluated\<close>

lemma example_parse:
  "parse_response example_env ''{}'' = Inl (KeyError ''allocations'')"
  "json_loads example_env (response_text ''{}'') = Inr (JObject [])"
  "json_loads example_env (response_text ''{M}'') = Inr example_missing"
  by (simp_all add: parse_response_def json_loads_def response_text_def strip_def trim_def
      isspace_def json_ws_def startswith_def example_env_def bind_exn_def subscript_def)

lemma example_source_inj: "inj (uuid_source example_world)"
  by (simp add: example_world_def inj_on_def)

subsection \<open>Failure of the model call or of parsing\<close>

lemma fst_new: 
  "fst (new_TokenomicsProject w name req allocs supply narr rs cps) =
     \<lparr>id = uuid_source w (uuid_drawn w), project_name = name, request_data = req,
      allocations = allocs, total_supply = supply, narrative = narr, risks = rs,
      comparable_projects = cps, created_at = clock w (clock_reads w),
      pdf_generated = False, payment_status = ''pending''\<rparr>"
  by (simp add: new_TokenomicsProject_def uuid4_def datetime_now_def)

lemma snd_new:
  "snd (new_TokenomicsProject w name req allocs supply narr rs cps) =
     w\<lparr>uuid_drawn := Suc (uuid_drawn w), clock_reads := Suc (clock_reads w)\<rparr>"
  by (simp add: new_TokenomicsProject_def uuid4_def datetime_now_def)

lemma generate_failed:
  "fst (try_generate E k reply w request) = Inl e \<Longrightarrow>
     generate_tokenomics_with_claude E k reply w request
       = create_fallback_tokenomics (snd (try_generate E k reply w request)) request"
  by (cases "try_generate E k reply w request") (simp add: generate_tokenomics_with_claude_def)

lemma try_generate_no_key: "try_generate E None reply w request = (Inl (KeyError ''EMERGENT_LLM_KEY''), w)"
  by (simp add: try_generate_def)

lemma try_generate_call_failed:
  "try_generate E (Some k) (Inl e) w request = (Inl e, snd (uuid4 w))"
  by (simp add: try_generate_def uuid4_def)

lemma try_generate_parse_failed:
  "parse_response E response = Inl e \<Longrightarrow>
     try_generate E (Some k) (Inr response) w request = (Inl e, snd (uuid4 w))"
  by (simp add: try_generate_def uuid4_def)

lemma fallback_content:
  "fst (create_fallback_tokenomics w request)\<lparr>id := i, created_at := t\<rparr>
     = fst (create_fallback_tokenomics w0 request)\<lparr>id := i, created_at := t\<rparr>"
  by (simp add: create_fallback_tokenomics_def fst_new)

text \<open>
  Claim C2. When the attempt fails, the orchestrator returns what the fallback generator
  returns for the same request, called in the world the failed attempt left: without
  the API key that is the initial world; when the model call raises (\<open>ModelTimeout\<close>,
  \<open>ModelUnavailable\<close> or any other exception) or the response does not parse, it is
  the world after the draw of the session identifier; and so for every failure of the
  attempt, validation by the constructor included. Apart from the identity and the
  timestamp, which the fallback generator draws itself, the design is the same in every
  world.
\<close>

theorem failure_returns_fallback:
  "(generate_tokenomics_with_claude E None reply w request
      = create_fallback_tokenomics w request)
 \<and> (generate_tokenomics_with_claude E (Some k) (Inl e) w request
      = create_fallback_tokenomics (snd (uuid4 w)) request)
 \<and> (parse_response E response = Inl e \<longrightarrow>
      generate_tokenomics_with_claude E (Some k) (Inr response) w request
        = create_fallback_tokenomics (snd (uuid4 w)) request)
 \<and> (fst (try_generate E api_key reply w request) = Inl e \<longrightarrow>
      generate_tokenomics_with_claude E api_key reply w request
        = create_fallback_tokenomics (snd (try_generate E api_key reply w request)) request
    \<and> fst (generate_tokenomics_with_claude E api_key reply w request)\<lparr>id := i, created_at := t\<rparr>
        = fst (create_fallback_tokenomics w0 request)\<lparr>id := i, created_at := t\<rparr>)"
proof (intro conjI impI)
  show "generate_tokenomics_with_claude E None reply w request
      = create_fallback_tokenomics w request"
    by (simp add: generate_tokenomics_with_claude_def try_generate_no_key)
  show "generate_tokenomics_with_claude E (Some k) (Inl e) w request
      = create_fallback_tokenomics (snd (uuid4 w)) request"
    by (simp add: generate_tokenomics_with_claude_def try_generate_call_failed)
  show "generate_tokenomics_with_claude E (Some k) (Inr response) w request
        = create_fallback_tokenomics (snd (uuid4 w)) request"
    if "parse_response E response = Inl e"
    by (simp add: generate_tokenomics_with_claude_def try_generate_parse_failed [OF that])
  assume f: "fst (try_generate E api_key reply w request) = Inl e"
  then show g: "generate_tokenomics_with_claude E api_key reply w request
        = create_fallback_tokenomics (snd (try_generate E api_key reply w request)) request"
    by (rule generate_failed)
  show "fst (generate_tokenomics_with_claude E api_key reply w request)\<lparr>id := i, created_at := t\<rparr>
        = fst (create_fallback_tokenomics w0 request)\<lparr>id := i, created_at := t\<rparr>"
    unfolding g by (rule fallback_content)
qed


theorem failure_returns_fallback_witness:
  "parse_response example_env ''{}'' = Inl (KeyError ''allocations'')
   \<and> generate_tokenomics_with_claude example_env (Some ''key'') (Inr ''{}'') example_world
         example_request
       = create_fallback_tokenomics (snd (uuid4 example_world)) example_request
   \<and> generate_tokenomics_with_claude example_env (Some ''key'') (Inl ModelTimeout)
         example_world example_request
       = create_fallback_tokenomics (snd (uuid4 example_world)) example_request
   \<and> fst (try_generate example_env (Some ''key'') (Inl ModelUnavailable) example_world
         example_request) = Inl ModelUnavailable
   \<and> fst (generate_tokenomics_with_claude example_env (Some ''key'') (Inl ModelUnavailable)
         example_world example_request)\<lparr>id := [], created_at := 0\<rparr>
       = fst (create_fallback_tokenomics example_world example_request)
           \<lparr>id := [], created_at := 0\<rparr>"
proof -
  have h1: "parse_response example_env ''{}'' = Inl (KeyError ''allocations'')"
    by (rule example_parse(1))
  have h2: "fst (try_generate example_env (Some ''key'') (Inl ModelUnavailable) example_world
         example_request) = Inl ModelUnavailable"
    by (simp add: try_generate_def uuid4_def)
  note t1 = failure_returns_fallback [where E = example_env and w = example_world
      and request = example_request and k = "''key''" and response = "''{}''"
      and e = "KeyError ''allocations''"]
  note t2 = failure_returns_fallback [where E = example_env and w = example_world
      and request = example_request and k = "''key''" and e = ModelTimeout]
  note t3 = failure_returns_fallback [where E = example_env and w = example_world
      and request = example_request and api_key = "Some ''key''"
      and reply = "Inl ModelUnavailable" and e = ModelUnavailable and ?w0.0 = example_world
      and i = "[]" and t = 0]
  from h1 h2 t1 t2 t3 show ?thesis by blast
qed

subsection \<open>Missing keys and fields\<close>

lemma bind_exn_Inl: "bind_exn (Inl e) f = Inl e"
  by (simp add: bind_exn_def)

lemma bind_exn_Inr: "bind_exn (Inr x) f = f x"
  by (simp add: bind_exn_def)

lemma isl_bind_exn: "(\<And>x. isl (f x)) \<Longrightarrow> isl (bind_exn m f)"
  by (cases m) (simp_all add: bind_exn_def)

lemma isl_exists: "isl m \<Longrightarrow> \<exists>e. m = Inl e"
  by (cases m) simp_all

lemma map_exn_fails:
  "x \<in> set xs \<Longrightarrow> isl (f x) \<Longrightarrow> isl (map_exn f xs)"
proof (induction xs)
  case Nil
  then show ?case by simp
next
  case (Cons y ys)
  show ?case
  proof (cases "f y")
    case (Inl e)
    then show ?thesis by (simp add: bind_exn_Inl)
  next
    case (Inr b)
    with Cons have "isl (map_exn f ys)" by auto
    then show ?thesis
      by (cases "map_exn f ys") (simp_all add: Inr bind_exn_Inl bind_exn_Inr)
  qed
qed

lemma validate_allocation_missing:
  assumes "key \<in> set allocation_fields" "map_of fs key = None"
  shows "validate_allocation E fs = None"
  using assms
  by (auto simp add: allocation_fields_def validate_allocation_def field_def)

lemma subscript_missing: "map_of fs key = None \<Longrightarrow> subscript (JObject fs) key = Inl (KeyError key)"
  by (simp add: subscript_def)

lemma parse_missing_key:
  assumes "json_loads E (response_text response) = Inr (JObject fs)"
    and "key \<in> set required_keys" and "map_of fs key = None"
  shows "isl (parse_response E response)"
proof -
  note sub = subscript_missing [OF assms(3)]
  from assms(2) have "key = ''allocations'' \<or> key = ''total_supply''
    \<or> key = ''narrative'' \<or> key = ''risks'' \<or> key = ''comparable_projects''"
    by (simp add: required_keys_def)
  then show ?thesis
  proof (elim disjE)
    assume 1: "key = ''allocations''"
    with sub show ?thesis
      by (simp add: parse_response_def assms(1) bind_exn_Inl bind_exn_Inr)
  next
    assume 2: "key = ''total_supply''"
    with sub show ?thesis
      unfolding parse_response_def assms(1) bind_exn_Inr
      by (simp add: bind_exn_Inl) (intro isl_bind_exn, simp)
  next
    assume 3: "key = ''narrative''"
    with sub show ?thesis
      unfolding parse_response_def assms(1) bind_exn_Inr
      by (simp add: bind_exn_Inl) (intro isl_bind_exn, simp)
  next
    assume 4: "key = ''risks''"
    with sub show ?thesis
      unfolding parse_response_def assms(1) bind_exn_Inr
      by (simp add: bind_exn_Inl) (intro isl_bind_exn, simp)
  next
    assume 5: "key = ''comparable_projects''"
    with sub show ?thesis
      unfolding parse_response_def assms(1) bind_exn_Inr
      by (simp add: bind_exn_Inl) (intro isl_bind_exn, simp)
  qed
qed


lemma parse_missing_field:
  assumes "json_loads E (response_text response) = Inr (JObject fs)"
    and "map_of fs ''allocations'' = Some (JArray entries)"
    and "JObject afs \<in> set entries"
    and "key \<in> set allocation_fields" and "map_of afs key = None"
  shows "isl (parse_response E response)"
proof -
  have "TokenAllocation_init E (JObject afs) = Inl ValidationError"
    by (simp add: TokenAllocation_init_def validate_allocation_missing [OF assms(4,5)])
  with assms(3) have "isl (map_exn (TokenAllocation_init E) entries)"
    using map_exn_fails [of "JObject afs" entries "TokenAllocation_init E"] by simp
  then obtain e where "map_exn (TokenAllocation_init E) entries = Inl e"
    using isl_exists by blast
  with assms(1,2) show ?thesis
    by (simp add: parse_response_def bind_exn_Inl bind_exn_Inr subscript_def py_iter_def)
qed

lemma endpoint_after_parse_failure:
  assumes "parse_response E response = Inl e" and "outage db = None"
  shows "generate_tokenomics E (Some k) (Inr response) (w, db) request
       = (Inr \<lparr>project = fst (create_fallback_tokenomics (snd (uuid4 w)) request),
               chart = chart_data (fst (create_fallback_tokenomics (snd (uuid4 w)) request))\<rparr>,
          snd (create_fallback_tokenomics (snd (uuid4 w)) request),
          db\<lparr>tokenomics_projects := tokenomics_projects db
               @ [fst (create_fallback_tokenomics (snd (uuid4 w)) request)]\<rparr>)"
proof -
  have "generate_tokenomics_with_claude E (Some k) (Inr response) w request
      = create_fallback_tokenomics (snd (uuid4 w)) request"
    by (simp add: generate_tokenomics_with_claude_def try_generate_parse_failed [OF assms(1)])
  with assms(2) show ?thesis
    by (simp add: generate_tokenomics_def insert_one_def case_prod_unfold Let_def)
qed

text \<open>
  Claim C3. Let the response decode to an object. If one of the five keys the source
  reads is missing, or the value of \<open>allocations\<close> is a list with an entry that is an
  object without one of the seven fields of an allocation, then parsing raises, no design
  is built from the response, the orchestrator returns the complete fallback design
  instead of an error, and the endpoint, with the database reachable, answers with that
  design.
\<close>

theorem missing_key_falls_back:
  fixes E :: env and response k :: string and w :: world and db :: database
    and request :: TokenomicsRequest
  assumes "json_loads E (response_text response) = Inr (JObject fs)"
  defines "fb \<equiv> create_fallback_tokenomics (snd (uuid4 w)) request"
  defines "absorbed \<equiv>
      (\<exists>e. parse_response E response = Inl e)
    \<and> generate_tokenomics_with_claude E (Some k) (Inr response) w request = fb
    \<and> (outage db = None \<longrightarrow>
         (\<exists>state. generate_tokenomics E (Some k) (Inr response) (w, db) request
            = (Inr \<lparr>project = fst fb, chart = chart_data (fst fb)\<rparr>, state)))"
  shows "(key \<in> set required_keys \<and> map_of fs key = None \<longrightarrow> absorbed)
       \<and> (map_of fs ''allocations'' = Some (JArray entries) \<and> JObject afs \<in> set entries
          \<and> field_name \<in> set allocation_fields \<and> map_of afs field_name = None \<longrightarrow> absorbed)"
proof -
  have fb: absorbed if "isl (parse_response E response)"
  proof -
    from that obtain e where e: "parse_response E response = Inl e"
      using isl_exists by blast
    then have "generate_tokenomics_with_claude E (Some k) (Inr response) w request = fb"
      by (simp add: fb_def generate_tokenomics_with_claude_def
          try_generate_parse_failed [OF e])
    with e endpoint_after_parse_failure [OF e, of db k w request] show ?thesis
      by (auto simp add: absorbed_def fb_def)
  qed
  show ?thesis
    using parse_missing_key [OF assms(1)] parse_missing_field [OF assms(1)] fb by blast
qed

theorem missing_key_falls_back_witness:
  "json_loads example_env (response_text ''{}'') = Inr (JObject [])
   \<and> ''narrative'' \<in> set required_keys \<and> map_of [] ''narrative'' = (None :: json option)
   \<and> generate_tokenomics_with_claude example_env (Some ''key'') (Inr ''{}'') example_world
         example_request
       = create_fallback_tokenomics (snd (uuid4 example_world)) example_request
   \<and> outage example_db = None
   \<and> (\<exists>state. generate_tokenomics example_env (Some ''key'') (Inr ''{}'')
         (example_world, example_db) example_request
       = (Inr \<lparr>project = fst (create_fallback_tokenomics (snd (uuid4 example_world))
                  example_request),
               chart = chart_data (fst (create_fallback_tokenomics (snd (uuid4 example_world))
                  example_request))\<rparr>, state))
   \<and> json_loads example_env (response_text ''{M}'') = Inr example_missing
   \<and> ''tokens'' \<in> set allocation_fields
   \<and> map_of [(''category'', JString ''Team'')] ''tokens'' = None
   \<and> generate_tokenomics_with_claude example_env (Some ''key'') (Inr ''{M}'') example_world
         example_request
       = create_fallback_tokenomics (snd (uuid4 example_world)) example_request"
proof -
  have h0: "json_loads example_env (response_text ''{}'') = Inr (JObject [])"
    by (rule example_parse(2))
  have h1: "''narrative'' \<in> set required_keys \<and> map_of [] ''narrative'' = (None :: json option)"
    by (simp add: required_keys_def)
  have up: "outage example_db = None"
    by (simp add: example_db_def)
  note c1 = missing_key_falls_back [OF h0, where db = example_db, THEN conjunct1, THEN mp, OF h1]
  have m: "json_loads example_env (response_text ''{M}'') = Inr example_missing"
    by (rule example_parse(3))
  have h2: "map_of [(''total_supply'', JInt 1000),
              (''allocations'', JArray [JObject [(''category'', JString ''Team'')]]),
              (''narrative'', JString ''one holder''), (''risks'', JArray [JString ''r'']),
              (''comparable_projects'', JArray [JString ''c''])] ''allocations''
          = Some (JArray [JObject [(''category'', JString ''Team'')]])
       \<and> JObject [(''category'', JString ''Team'')] \<in> set [JObject [(''category'', JString ''Team'')]]
       \<and> ''tokens'' \<in> set allocation_fields
       \<and> map_of [(''category'', JString ''Team'')] ''tokens'' = None"
    by (simp add: allocation_fields_def)
  note c2 = missing_key_falls_back [OF m [unfolded example_missing_def], where db = example_db,
      THEN conjunct2, THEN mp, OF h2]
  from h0 h1 up c1 m h2 c2 show ?thesis by blast
qed

subsection \<open>What the construction of an allocation checks\<close>






subsection \<open>Initial values of a new design\<close>

lemma init_fresh:
  assumes "TokenomicsProject_init E w name req allocs ts nv rv cv = (res, w')"
  shows "w' = w\<lparr>uuid_drawn := Suc (uuid_drawn w), clock_reads := Suc (clock_reads w)\<rparr>"
    and "res = Inr p \<Longrightarrow> id p = uuid_source w (uuid_drawn w) \<and> created_at p = clock w (clock_reads w)
           \<and> pdf_generated p = False \<and> payment_status p = ''pending''"
  using assms
  by (auto simp add: TokenomicsProject_init_def new_TokenomicsProject_def uuid4_def
      datetime_now_def split: option.splits)

lemma try_generate_fresh:
  assumes "try_generate E k reply w request = (res, w')"
  shows "uuid_source w' = uuid_source w \<and> clock w' = clock w
       \<and> uuid_drawn w \<le> uuid_drawn w' \<and> clock_reads w \<le> clock_reads w'"
    and "res = Inr p \<Longrightarrow> uuid_drawn w < uuid_drawn w' \<and> clock_reads w < clock_reads w'
           \<and> id p = uuid_source w (uuid_drawn w' - 1) \<and> created_at p = clock w (clock_reads w' - 1)
           \<and> pdf_generated p = False \<and> payment_status p = ''pending''"
proof -
  show "uuid_source w' = uuid_source w \<and> clock w' = clock w
       \<and> uuid_drawn w \<le> uuid_drawn w' \<and> clock_reads w \<le> clock_reads w'"
    using assms
    by (auto simp add: try_generate_def uuid4_def split: option.splits sum.splits prod.splits
        dest!: init_fresh(1))
  show "uuid_drawn w < uuid_drawn w' \<and> clock_reads w < clock_reads w'
           \<and> id p = uuid_source w (uuid_drawn w' - 1) \<and> created_at p = clock w (clock_reads w' - 1)
           \<and> pdf_generated p = False \<and> payment_status p = ''pending''" if "res = Inr p"
  proof -
    from assms that obtain allocs ts nv rv cv where
      "TokenomicsProject_init E (snd (uuid4 w)) (default_project_name request) request
         allocs ts nv rv cv = (Inr p, w')"
      by (auto simp add: try_generate_def uuid4_def
          split: option.splits sum.splits prod.splits)
    from init_fresh(1) [OF this] init_fresh(2) [OF this refl] show ?thesis
      by (simp add: uuid4_def)
  qed
qed

lemma generate_fresh:
  fixes E api_key reply w request
  defines "r \<equiv> generate_tokenomics_with_claude E api_key reply w request"
  shows "pdf_generated (fst r) = False \<and> payment_status (fst r) = ''pending''
       \<and> uuid_drawn w < uuid_drawn (snd r) \<and> id (fst r) = uuid_source w (uuid_drawn (snd r) - 1)
       \<and> clock_reads w < clock_reads (snd r) \<and> created_at (fst r) = clock w (clock_reads (snd r) - 1)
       \<and> uuid_source (snd r) = uuid_source w \<and> clock (snd r) = clock w"
proof (cases "try_generate E api_key reply w request")
  case (Pair res w')
  note t = try_generate_fresh [OF Pair]
  show ?thesis
  proof (cases res)
    case (Inl e)
    with Pair have "r = create_fallback_tokenomics w' request"
      by (simp add: r_def generate_tokenomics_with_claude_def)
    with t(1) show ?thesis
      by (simp add: create_fallback_tokenomics_def fst_new snd_new)
  next
    case (Inr p)
    with Pair have "r = (p, w')"
      by (simp add: r_def generate_tokenomics_with_claude_def)
    with t(1) t(2) [OF Inr] show ?thesis by simp
  qed
qed


text \<open>
  Claim C9. The design of the fallback generator and the design of the orchestrator, on
  either path, have \<open>pdf_generated = False\<close> and \<open>payment_status = "pending"\<close>; the
  identity is the one drawn from the generator of identities by the constructor of the
  returned design (for the orchestrator the last draw of the call, made after every
  identity handed out before the call), and the timestamp is the reading of the clock by
  that constructor. When the generator of identities never repeats itself, a design
  generated afterwards has a different identity.
\<close>

theorem new_design_defaults:
  fixes E E' :: env and w :: world and api_key api_key' :: "string option"
    and reply reply' :: "exn + string" and request request' :: TokenomicsRequest
  defines "r \<equiv> generate_tokenomics_with_claude E api_key reply w request"
    and "f \<equiv> create_fallback_tokenomics w request"
  defines "r' \<equiv> generate_tokenomics_with_claude E' api_key' reply' (snd r) request'"
  shows "pdf_generated (fst f) = False \<and> payment_status (fst f) = ''pending''
       \<and> id (fst f) = uuid_source w (uuid_drawn w) \<and> created_at (fst f) = clock w (clock_reads w)
       \<and> pdf_generated (fst r) = False \<and> payment_status (fst r) = ''pending''
       \<and> uuid_drawn w < uuid_drawn (snd r) \<and> id (fst r) = uuid_source w (uuid_drawn (snd r) - 1)
       \<and> clock_reads w < clock_reads (snd r)
       \<and> created_at (fst r) = clock w (clock_reads (snd r) - 1)
       \<and> (inj (uuid_source w) \<longrightarrow> id (fst r') \<noteq> id (fst r))"
proof -
  note g = generate_fresh [of E api_key reply w request, folded r_def]
  note g' = generate_fresh [of E' api_key' reply' "snd r" request', folded r'_def]
  have "id (fst r') \<noteq> id (fst r)" if "inj (uuid_source w)"
  proof -
    have "id (fst r') = uuid_source w (uuid_drawn (snd r') - 1)"
      using g g' by simp
    moreover have "uuid_drawn (snd r') - 1 \<noteq> uuid_drawn (snd r) - 1"
      using g g' by linarith
    ultimately show ?thesis
      using g that by (simp add: inj_eq)
  qed
  moreover have "pdf_generated (fst f) = False \<and> payment_status (fst f) = ''pending''
       \<and> id (fst f) = uuid_source w (uuid_drawn w) \<and> created_at (fst f) = clock w (clock_reads w)"
    by (simp add: f_def create_fallback_tokenomics_def fst_new)
  ultimately show ?thesis
    using g by blast
qed

theorem new_design_defaults_witness:
  "inj (uuid_source example_world)
   \<and> id (fst (generate_tokenomics_with_claude example_env None (Inl ModelTimeout)
         (snd (generate_tokenomics_with_claude example_env (Some ''key'') (Inr ''{D}'')
            example_world example_request)) example_request))
     \<noteq> id (fst (generate_tokenomics_with_claude example_env (Some ''key'') (Inr ''{D}'')
            example_world example_request))"
proof -
  note t = new_design_defaults [where w = example_world and E = example_env
      and api_key = "Some ''key''" and reply = "Inr ''{D}''" and request = example_request
      and E' = example_env and api_key' = None and reply' = "Inl ModelTimeout"
      and request' = example_request]
  from t example_source_inj show ?thesis by blast
qed


subsection \<open>The chart data\<close>

lemma chart_data_fields:
  "map chart_name (chart_data p) = map category (allocations p)"
  "map chart_value (chart_data p) = map percentage (allocations p)"
  "map chart_tokens (chart_data p) = map tokens (allocations p)"
  "map chart_color (chart_data p) = map (\<lambda>i. palette ! (i mod 7)) [0..<length (allocations p)]"
proof -
  have s: "map (f \<circ> snd) (enumerate 0 xs) = map f xs" for f :: "TokenAllocation \<Rightarrow> 'b" and xs
    by (simp flip: map_map)
  have f: "map (g \<circ> fst) (enumerate 0 xs) = map g [0..<length xs]"
    for g :: "nat \<Rightarrow> 'c" and xs :: "TokenAllocation list"
    by (simp flip: map_map)
  show "map chart_name (chart_data p) = map category (allocations p)"
    using s [of category "allocations p"]
    by (simp add: chart_data_def comp_def case_prod_unfold)
  show "map chart_value (chart_data p) = map percentage (allocations p)"
    using s [of percentage "allocations p"]
    by (simp add: chart_data_def comp_def case_prod_unfold)
  show "map chart_tokens (chart_data p) = map tokens (allocations p)"
    using s [of tokens "allocations p"]
    by (simp add: chart_data_def comp_def case_prod_unfold)
  show "map chart_color (chart_data p) = map (\<lambda>i. palette ! (i mod 7)) [0..<length (allocations p)]"
    using f [of "\<lambda>i. palette ! (i mod 7)" "allocations p"]
    by (simp add: chart_data_def comp_def case_prod_unfold)
qed

text \<open>
  Claim C4. The chart data of a design has one entry for each allocation, in the order of
  the allocations, with the allocation's category, percentage and token count, and the
  colour of entry \<open>i\<close> is the element \<open>i mod 7\<close> of the palette, which has seven
  colours. For a design with the three allocations \<open>a\<close>, \<open>b\<close>, \<open>c\<close> the colours
  are the first three of the palette.
\<close>

theorem chart_data_projection:
  "length (chart_data p) = length (allocations p)
   \<and> map chart_name (chart_data p) = map category (allocations p)
   \<and> map chart_value (chart_data p) = map percentage (allocations p)
   \<and> map chart_tokens (chart_data p) = map tokens (allocations p)
   \<and> map chart_color (chart_data p)
       = map (\<lambda>i. palette ! (i mod 7)) [0..<length (allocations p)]
   \<and> map chart_color (chart_data (p\<lparr>allocations := [a, b, c]\<rparr>))
       = [palette ! 0, palette ! 1, palette ! 2]
   \<and> [palette ! 0, palette ! 1, palette ! 2] = [''#DC1FFF'', ''#00FFA3'', ''#FF6B35'']
   \<and> length palette = 7"
proof -
  have "length (chart_data p) = length (allocations p)"
    by (simp add: chart_data_def)
  moreover have "map chart_color (chart_data (p\<lparr>allocations := [a, b, c]\<rparr>))
       = [palette ! 0, palette ! 1, palette ! 2]"
    by (simp add: chart_data_def palette_def)
  moreover have "[palette ! 0, palette ! 1, palette ! 2] = [''#DC1FFF'', ''#00FFA3'', ''#FF6B35'']"
    and "length palette = 7"
    by (simp_all add: palette_def)
  ultimately show ?thesis
    using chart_data_fields [of p] by simp
qed

subsection \<open>Retrieval by identity\<close>






subsection \<open>Wrapping and pagination of the narrative\<close>





























end
